theory Spec2Isabelle
  imports Complex_Main "HOL-Library.AList" "HOL-Library.Multiset"
begin

section \<open>Python values\<close>

text \<open>
  The program of \<^verbatim>\<open>usage_stats.py\<close> works on decoded JSON documents. A JSON value is a
  value of the datatype \<open>json\<close>; an object is an association list in insertion order, as a
  Python \<^verbatim>\<open>dict\<close> is. Python integers are unbounded (\<open>int\<close>). A Python string is
  modelled as a HOL \<open>string\<close> whose characters are read as the code points 0 to 255, so
  the character classes below are those of Python restricted to that range.
\<close>

datatype json =
    JNull
  | JBool bool
  | JInt int
  | JFloat rat
  | JStr string
  | JList "json list"
  | JDict "(string \<times> json) list"

datatype py_error = TypeError | AttributeError

type_synonym counts = "(string \<times> int) list"

text \<open>
  Character classes of the built-in string methods: \<^verbatim>\<open>str.isspace\<close> (used by
  \<^verbatim>\<open>str.strip\<close>), the line boundaries of \<^verbatim>\<open>str.splitlines\<close> and \<^verbatim>\<open>str.isdigit\<close> (which
  accepts the superscript digits B2, B3 and B9 besides 0 to 9).
\<close>

definition is_space :: "char \<Rightarrow> bool" where
  "is_space c = (c \<in> set [CHR 0x09, CHR 0x0A, CHR 0x0B, CHR 0x0C, CHR 0x0D, CHR 0x1C, CHR 0x1D,
                   CHR 0x1E, CHR 0x1F, CHR '' '', CHR 0x85, CHR 0xA0])"

definition is_linebreak :: "char \<Rightarrow> bool" where
  "is_linebreak c = (c \<in> set [CHR 0x0A, CHR 0x0B, CHR 0x0C, CHR 0x0D, CHR 0x1C, CHR 0x1D,
                       CHR 0x1E, CHR 0x85])"

definition is_digit :: "char \<Rightarrow> bool" where
  "is_digit c = (c \<in> set (''0123456789'' @ [CHR 0xB2, CHR 0xB3, CHR 0xB9]))"

definition strip :: "string \<Rightarrow> string" where
  "strip s = rev (dropWhile is_space (rev (dropWhile is_space s)))"

text \<open>
  \<^verbatim>\<open>str.splitlines()\<close>: a carriage return followed by a line feed is one boundary, and a
  final boundary does not open an empty last line.
\<close>

fun splitlines_from :: "string \<Rightarrow> string \<Rightarrow> string list" where
  "splitlines_from cur [] = (if cur = [] then [] else [cur])"
| "splitlines_from cur [c] = (if is_linebreak c then [cur] else [cur @ [c]])"
| "splitlines_from cur (c # d # rest) =
     (if c = CHR 0x0D \<and> d = CHR 0x0A then cur # splitlines_from [] rest
      else if is_linebreak c then cur # splitlines_from [] (d # rest)
      else splitlines_from (cur @ [c]) (d # rest))"

definition splitlines :: "string \<Rightarrow> string list" where
  "splitlines s = splitlines_from [] s"

definition startswith :: "string \<Rightarrow> string \<Rightarrow> bool" where
  "startswith s p = (take (length p) s = p)"

definition isdigit :: "string \<Rightarrow> bool" where
  "isdigit s = (s \<noteq> [] \<and> list_all is_digit s)"

text \<open>
  Truthiness, the value of \<^verbatim>\<open>a or b\<close>, membership \<^verbatim>\<open>k in d\<close> and \<^verbatim>\<open>d.get(k, default)\<close>.
\<close>

fun truthy :: "json \<Rightarrow> bool" where
  "truthy JNull = False"
| "truthy (JBool b) = b"
| "truthy (JInt n) = (n \<noteq> 0)"
| "truthy (JFloat q) = (q \<noteq> 0)"
| "truthy (JStr s) = (s \<noteq> [])"
| "truthy (JList xs) = (xs \<noteq> [])"
| "truthy (JDict kv) = (kv \<noteq> [])"

definition py_or :: "json \<Rightarrow> json \<Rightarrow> json" where
  "py_or a b = (if truthy a then a else b)"

definition has_key :: "(string \<times> json) list \<Rightarrow> string \<Rightarrow> bool" where
  "has_key d k = (k \<in> set (map fst d))"

definition dict_get :: "(string \<times> json) list \<Rightarrow> string \<Rightarrow> json \<Rightarrow> json" where
  "dict_get d k dflt = (case map_of d k of None \<Rightarrow> dflt | Some v \<Rightarrow> v)"

text \<open>
  A dictionary of card counts (\<^verbatim>\<open>defaultdict(int)\<close>) is an association list in insertion
  order. \<open>get0\<close> is \<^verbatim>\<open>d.get(k, 0)\<close>; \<open>inc\<close> is \<^verbatim>\<open>d[k] += 1\<close>, which keeps the position
  of a key already present and appends a new key at the end.
\<close>

definition get0 :: "counts \<Rightarrow> string \<Rightarrow> int" where
  "get0 d k = (case map_of d k of None \<Rightarrow> 0 | Some v \<Rightarrow> v)"

definition inc :: "string \<Rightarrow> counts \<Rightarrow> counts" where
  "inc k d = AList.update k (get0 d k + 1) d"

definition then_res :: "'e + 'a \<Rightarrow> ('a \<Rightarrow> 'e + 'b) \<Rightarrow> 'e + 'b" where
  "then_res r f = (case r of Inl e \<Rightarrow> Inl e | Inr x \<Rightarrow> f x)"

section \<open>Cut tiers\<close>

text \<open>
  \<^verbatim>\<open>CUT_TIERS\<close>: the nine labels with their thresholds, in definition order.
\<close>

definition CUT_TIERS :: "(string \<times> int) list" where
  "CUT_TIERS =
     [(''Winner'', 1), (''Finalist'', 2), (''Top 4'', 4), (''Top 8'', 8), (''Top 16'', 16),
      (''Top 24'', 24), (''Top 32'', 32), (''Top 48'', 48), (''Top 64'', 64)]"

text \<open>
  \<^verbatim>\<open>tiers_applicable(placement, cut_size)\<close>: the loop over \<^verbatim>\<open>CUT_TIERS\<close> appends a label
  to the list \<^verbatim>\<open>applicable\<close> whenever both tests pass.
\<close>

fun tiers_loop :: "(string \<times> int) list \<Rightarrow> int \<Rightarrow> int \<Rightarrow> string list \<Rightarrow> string list" where
  "tiers_loop [] placement cut_size applicable = applicable"
| "tiers_loop ((label, threshold) # rest) placement cut_size applicable =
     tiers_loop rest placement cut_size
       (if threshold \<le> cut_size \<and> placement \<le> threshold then applicable @ [label]
        else applicable)"

definition tiers_applicable :: "int \<Rightarrow> int \<Rightarrow> string list" where
  "tiers_applicable placement cut_size = tiers_loop CUT_TIERS placement cut_size []"

text \<open>
  \<^verbatim>\<open>infer_cut_size_from_top(top_len)\<close>: the loop returns the first threshold that is at
  least \<^verbatim>\<open>top_len\<close>; when the loop runs to its end the argument itself is returned.
\<close>

fun infer_loop :: "(string \<times> int) list \<Rightarrow> int \<Rightarrow> int" where
  "infer_loop [] top_len = top_len"
| "infer_loop ((label, thr) # rest) top_len =
     (if top_len \<le> thr then thr else infer_loop rest top_len)"

definition infer_cut_size_from_top :: "int \<Rightarrow> int" where
  "infer_cut_size_from_top top_len = infer_loop CUT_TIERS top_len"

text \<open>
The thresholds of the tier table, for stating properties.
\<close>

definition tier_thresholds :: "int list" where
  "tier_thresholds = map snd CUT_TIERS"

section \<open>Deck payload parsers\<close>

text \<open>
  \<^verbatim>\<open>normalize_card_name\<close> and the body of the loops over a section: the name of a card
  object is \<^verbatim>\<open>obj.get("name") or obj.get("cleanName") or obj.get("cardName")\<close>. An element
  that is not an object has no \<^verbatim>\<open>get\<close>, and a truthy name that is not a string has no
  \<^verbatim>\<open>strip\<close>: both raise \<^verbatim>\<open>AttributeError\<close>.
\<close>

definition normalize_card_name :: "string \<Rightarrow> string" where
  "normalize_card_name name = strip name"

definition card_name_field :: "(string \<times> json) list \<Rightarrow> json" where
  "card_name_field obj =
     py_or (dict_get obj ''name'' JNull)
       (py_or (dict_get obj ''cleanName'' JNull) (dict_get obj ''cardName'' JNull))"

fun add_objs :: "json list \<Rightarrow> counts \<Rightarrow> py_error + counts" where
  "add_objs [] counts = Inr counts"
| "add_objs (JDict obj # rest) counts =
     (let nm = card_name_field obj in
      if truthy nm then
        (case nm of
           JStr s \<Rightarrow> add_objs rest (inc (normalize_card_name s) counts)
         | _ \<Rightarrow> Inl AttributeError)
      else add_objs rest counts)"
| "add_objs (_ # rest) counts = Inl AttributeError"

text \<open>
  \<^verbatim>\<open>for obj in items or []\<close>: a falsy value gives no element; a list gives its elements, an
  object its keys, a string its characters; any other truthy value is not iterable
  (\<^verbatim>\<open>TypeError\<close>).
\<close>

definition iter_items :: "json \<Rightarrow> py_error + json list" where
  "iter_items items =
     (if \<not> truthy items then Inr []
      else case items of
             JList xs \<Rightarrow> Inr xs
           | JDict kv \<Rightarrow> Inr (map (\<lambda>(k, v). JStr k) kv)
           | JStr s \<Rightarrow> Inr (map (\<lambda>c. JStr [c]) s)
           | _ \<Rightarrow> Inl TypeError)"

definition add_from_section :: "json \<Rightarrow> counts \<Rightarrow> py_error + counts" where
  "add_from_section items counts =
     (case iter_items items of Inl e \<Rightarrow> Inl e | Inr objs \<Rightarrow> add_objs objs counts)"

text \<open>
  The deck-list text loop, run on the stripped lines of the text.
\<close>

fun ydk_lines :: "string list \<Rightarrow> counts \<Rightarrow> counts" where
  "ydk_lines [] counts = counts"
| "ydk_lines (line # rest) counts =
     (if line = [] \<or> startswith line ''#'' \<or> startswith line ''!'' then ydk_lines rest counts
      else if isdigit line then ydk_lines rest (inc (''CARD_ID:'' @ line) counts)
      else ydk_lines rest (inc (normalize_card_name line) counts))"

definition parse_ydk_text :: "string \<Rightarrow> counts" where
  "parse_ydk_text text = ydk_lines (map strip (splitlines text)) []"

text \<open>
  \<^verbatim>\<open>parse_deck_payload\<close> on an object: the three sections in the order main, extra, side
  when one of the keys is present, else the \<^verbatim>\<open>ydk\<close> text when it is a string, else the
  empty counts.
\<close>

definition parse_dict_payload :: "(string \<times> json) list \<Rightarrow> py_error + counts" where
  "parse_dict_payload payload =
     (if has_key payload ''main'' \<or> has_key payload ''extra'' \<or> has_key payload ''side'' then
        then_res (add_from_section (dict_get payload ''main'' (JList [])) []) (\<lambda>c1.
        then_res (add_from_section (dict_get payload ''extra'' (JList [])) c1) (\<lambda>c2.
        add_from_section (dict_get payload ''side'' (JList [])) c2))
      else (case dict_get payload ''ydk'' JNull of
              JStr ydk \<Rightarrow> Inr (parse_ydk_text ydk)
            | _ \<Rightarrow> Inr []))"

text \<open>
  \<^verbatim>\<open>parse_deck_payload\<close>. The decoder \<^verbatim>\<open>json.loads\<close> is a parameter \<open>loads\<close>, with \<open>None\<close> for
  a decoding error. On a string the function calls itself on the decoded value, and the
  \<^verbatim>\<open>except Exception\<close> clause also catches an exception of that call; both failures fall
  back to the deck-list text loop on the string. Nothing bounds the recursion for an
  arbitrary decoder, so the result is an option, \<open>None\<close> meaning that the call does not
  return.
\<close>

partial_function (option) parse_deck_payload ::
    "(string \<Rightarrow> json option) \<Rightarrow> json \<Rightarrow> (py_error + counts) option" where
  "parse_deck_payload loads payload =
     (case payload of
        JDict d \<Rightarrow> Some (parse_dict_payload d)
      | JStr s \<Rightarrow>
          (case loads s of
             None \<Rightarrow> Some (Inr (parse_ydk_text s))
           | Some maybe \<Rightarrow>
               Option.bind (parse_deck_payload loads maybe)
                 (\<lambda>r. case r of Inl e \<Rightarrow> Some (Inr (parse_ydk_text s)) | Inr c \<Rightarrow> Some (Inr c)))
      | _ \<Rightarrow> Some (Inr []))"

text \<open>
  \<^verbatim>\<open>parse_deck_sections\<close>: the sections in the order main, side, extra, each counted from
  an empty dictionary; a payload that is not an object gives three empty dictionaries.
\<close>

definition parse_deck_sections :: "json \<Rightarrow> py_error + (counts \<times> counts \<times> counts)" where
  "parse_deck_sections payload =
     (case payload of
        JDict d \<Rightarrow>
          then_res (add_from_section (dict_get d ''main'' (JList [])) []) (\<lambda>main_counts.
          then_res (add_from_section (dict_get d ''side'' (JList [])) []) (\<lambda>side_counts.
          then_res (add_from_section (dict_get d ''extra'' (JList [])) []) (\<lambda>extra_counts.
          Inr (main_counts, side_counts, extra_counts))))
      | _ \<Rightarrow> Inr ([], [], []))"

section \<open>Placement entries\<close>

text \<open>
  The head of the loop over \<^verbatim>\<open>top\<close> in \<^verbatim>\<open>main\<close>. The conversion \<^verbatim>\<open>int(...)\<close> is a parameter
  \<open>to_int\<close>, with \<open>None\<close> when it raises. \<open>resolve_entry\<close> takes the entry and the deck
  payload fetched for it and returns the placement, the deck reference and the archetype
  that the rest of the loop body uses.
\<close>

definition entry_placing :: "(json \<Rightarrow> int option) \<Rightarrow> (string \<times> json) list \<Rightarrow> int" where
  "entry_placing to_int entry =
     (case to_int (py_or (dict_get entry ''placing'' JNull)
                     (py_or (dict_get entry ''place'' JNull) (dict_get entry ''rank'' JNull))) of
        Some n \<Rightarrow> n
      | None \<Rightarrow> 9999)"

definition entry_deck_id :: "(string \<times> json) list \<Rightarrow> json" where
  "entry_deck_id entry =
     py_or (dict_get entry ''deckId'' JNull)
       (py_or (dict_get entry ''id'' JNull)
          (py_or (dict_get entry ''_id'' JNull) (dict_get entry ''deckSlug'' JNull)))"

definition entry_archetype :: "(string \<times> json) list \<Rightarrow> json" where
  "entry_archetype entry =
     py_or (dict_get entry ''deckType'' JNull)
       (py_or (dict_get entry ''archetype'' JNull)
          (py_or (dict_get entry ''name'' JNull) (JStr ''Unknown'')))"

record resolved_entry =
  r_placing :: int
  r_deck_id :: json
  r_archetype :: json

definition resolve_entry ::
    "(json \<Rightarrow> int option) \<Rightarrow> (string \<times> json) list \<Rightarrow> json \<Rightarrow> resolved_entry" where
  "resolve_entry to_int entry payload =
     (let placing0 = entry_placing to_int entry;
          deck_id = entry_deck_id entry;
          archetype0 = entry_archetype entry
      in case payload of
           JDict p \<Rightarrow>
             \<lparr> r_placing =
                 (if has_key p ''placement'' then
                    (case to_int (dict_get p ''placement'' JNull) of
                       Some n \<Rightarrow> n
                     | None \<Rightarrow> placing0)
                  else placing0),
               r_deck_id = deck_id,
               r_archetype =
                 (if truthy (dict_get p ''deckTypeName'' JNull)
                  then dict_get p ''deckTypeName'' JNull else archetype0) \<rparr>
         | _ \<Rightarrow> \<lparr> r_placing = placing0, r_deck_id = deck_id, r_archetype = archetype0 \<rparr>)"

text \<open>
  A model of the built-in \<^verbatim>\<open>int(...)\<close> on JSON values, used to evaluate \<open>resolve_entry\<close> on
  concrete entries. Numbers are truncated towards zero; \<^verbatim>\<open>None\<close>, lists and objects raise.
  A string is read as CPython reads it: the code points 85 and A0 count as spaces, the
  spaces skipped at both ends are those of the ASCII class (09 to 0D and 20, not 1C to
  1F), then comes an optional sign and decimal digits 0 to 9 with single underscores
  allowed between digits; a literal of more than 4300 digits is refused (the default of
  \<^verbatim>\<open>sys.set_int_max_str_digits\<close>).
\<close>

definition is_int_space :: "char \<Rightarrow> bool" where
  "is_int_space c =
     (c \<in> set [CHR 0x09, CHR 0x0A, CHR 0x0B, CHR 0x0C, CHR 0x0D, CHR '' '', CHR 0x85, CHR 0xA0])"

definition int_strip :: "string \<Rightarrow> string" where
  "int_strip s = rev (dropWhile is_int_space (rev (dropWhile is_int_space s)))"

definition int_max_str_digits :: nat where
  "int_max_str_digits = 4300"

definition is_ascii_digit :: "char \<Rightarrow> bool" where
  "is_ascii_digit c = (c \<in> set ''0123456789'')"

fun digits_ok :: "string \<Rightarrow> bool" where
  "digits_ok [] = False"
| "digits_ok [c] = is_ascii_digit c"
| "digits_ok (c # d # rest) =
     (is_ascii_digit c \<and> (if d = CHR ''_'' then digits_ok rest else digits_ok (d # rest)))"

definition digits_value :: "string \<Rightarrow> int" where
  "digits_value s =
     foldl (\<lambda>acc c. 10 * acc + (int (of_char c) - 48)) 0 (filter (\<lambda>c. c \<noteq> CHR ''_'') s)"

definition int_of_str :: "string \<Rightarrow> int option" where
  "int_of_str s =
     (let t = int_strip s;
          neg = startswith t ''-'';
          body = (if startswith t ''-'' \<or> startswith t ''+'' then tl t else t)
      in if digits_ok body \<and> length (filter is_ascii_digit body) \<le> int_max_str_digits
         then Some ((if neg then - 1 else 1) * digits_value body)
         else None)"

fun py_int :: "json \<Rightarrow> int option" where
  "py_int JNull = None"
| "py_int (JBool b) = Some (if b then 1 else 0)"
| "py_int (JInt n) = Some n"
| "py_int (JFloat q) = Some (if q < 0 then - \<lfloor>- q\<rfloor> else \<lfloor>q\<rfloor>)"
| "py_int (JStr s) = int_of_str s"
| "py_int (JList xs) = None"
| "py_int (JDict d) = None"

section \<open>The accumulator\<close>

text \<open>
  A \<^verbatim>\<open>Counter\<close> is a map from keys to integers, a \<^verbatim>\<open>defaultdict(Counter)\<close> a map from keys
  to counters. \<open>cget\<close> reads a counter (a missing key reads as 0 and is not inserted),
  \<open>dd_get\<close> reads a \<^verbatim>\<open>defaultdict(Counter)\<close> (a missing key reads as the empty counter).
  \<open>counter_add\<close> is \<^verbatim>\<open>c[k] += q\<close> and \<open>nested_add\<close> is \<^verbatim>\<open>d[k1][k2] += q\<close>.
\<close>

type_synonym counter = "string \<rightharpoonup> int"

type_synonym counter2 = "string \<rightharpoonup> counter"

definition cget :: "counter \<Rightarrow> string \<Rightarrow> int" where
  "cget c k = (case c k of None \<Rightarrow> 0 | Some v \<Rightarrow> v)"

definition dd_get :: "counter2 \<Rightarrow> string \<Rightarrow> counter" where
  "dd_get d k = (case d k of None \<Rightarrow> Map.empty | Some c \<Rightarrow> c)"

definition counter_add :: "string \<Rightarrow> int \<Rightarrow> counter \<Rightarrow> counter" where
  "counter_add k q c = c(k \<mapsto> cget c k + q)"

definition nested_add :: "string \<Rightarrow> string \<Rightarrow> int \<Rightarrow> counter2 \<Rightarrow> counter2" where
  "nested_add k1 k2 q d = d(k1 \<mapsto> counter_add k2 q (dd_get d k1))"

text \<open>
  The loops of the body of \<^verbatim>\<open>main\<close> that update one table each.
\<close>

definition add_totals :: "counts \<Rightarrow> counter \<Rightarrow> counter" where
  "add_totals items t = fold (\<lambda>(card, qty). counter_add card qty) items t"

definition add_ms_totals :: "string list \<Rightarrow> counts \<Rightarrow> counts \<Rightarrow> counter \<Rightarrow> counter" where
  "add_ms_totals all_ms main side t =
     fold (\<lambda>card. counter_add card (get0 main card + get0 side card)) all_ms t"

definition add_presence_by_cut :: "string list \<Rightarrow> string list \<Rightarrow> counter2 \<Rightarrow> counter2" where
  "add_presence_by_cut tiers cards t =
     fold (\<lambda>card. fold (\<lambda>tier. nested_add card tier 1) tiers) cards t"

definition add_qty_by_cut :: "string list \<Rightarrow> counts \<Rightarrow> counter2 \<Rightarrow> counter2" where
  "add_qty_by_cut tiers items t =
     fold (\<lambda>(card, qty). fold (\<lambda>tier. nested_add card tier qty) tiers) items t"

definition add_ms_qty_by_cut ::
    "string list \<Rightarrow> string list \<Rightarrow> counts \<Rightarrow> counts \<Rightarrow> counter2 \<Rightarrow> counter2" where
  "add_ms_qty_by_cut tiers all_ms main side t =
     fold (\<lambda>card. fold (\<lambda>tier. nested_add card tier (get0 main card + get0 side card)) tiers)
       all_ms t"

text \<open>
  One observation is what the loop body has in hand after parsing: the combined counts, the
  three section counts, the placement, the bracket size of the event and the archetype.
  The accumulator holds the twenty-two tables of \<^verbatim>\<open>main\<close>.
\<close>

record observation =
  counts :: counts
  main_counts :: counts
  side_counts :: counts
  extra_counts :: counts
  placing :: int
  cut_size :: int
  archetype :: string

record accumulator =
  per_card_total :: counter
  per_card_by_cut :: counter2
  per_card_qty_by_cut :: counter2
  per_card_total_main :: counter
  per_card_total_side :: counter
  per_card_total_extra :: counter
  per_card_total_main_side :: counter
  per_card_by_cut_main :: counter2
  per_card_by_cut_side :: counter2
  per_card_by_cut_extra :: counter2
  per_card_by_cut_main_side :: counter2
  per_card_qty_by_cut_main :: counter2
  per_card_qty_by_cut_side :: counter2
  per_card_qty_by_cut_extra :: counter2
  per_card_qty_by_cut_main_side :: counter2
  per_archetype_total :: counter
  per_archetype_by_cut :: counter2
  per_deck_cut_total :: counter
  per_card_by_archetype :: counter2
  per_card_qty_by_archetype :: counter2
  per_archetype_card_presence :: counter2
  per_archetype_card_qty :: counter2

text \<open>
  \<open>keys d\<close> enumerates \<^verbatim>\<open>set(d.keys())\<close>. \<open>observe\<close> is the body of the loop over the
  entries from the line \<^verbatim>\<open># Combined totals\<close> on; the tables are independent, so the
  updates are written as one record.
\<close>

definition keys :: "counts \<Rightarrow> string list" where
  "keys d = remdups (map fst d)"

definition observe :: "accumulator \<Rightarrow> observation \<Rightarrow> accumulator" where
  "observe a ob =
     (let cnt = counts ob; mc = main_counts ob; sc = side_counts ob; ec = extra_counts ob;
          arch = archetype ob;
          tiers = tiers_applicable (placing ob) (cut_size ob);
          all_ms = remdups (keys mc @ keys sc)
      in \<lparr> per_card_total = add_totals cnt (per_card_total a),
           per_card_by_cut = add_presence_by_cut tiers (keys cnt) (per_card_by_cut a),
           per_card_qty_by_cut = add_qty_by_cut tiers cnt (per_card_qty_by_cut a),
           per_card_total_main = add_totals mc (per_card_total_main a),
           per_card_total_side = add_totals sc (per_card_total_side a),
           per_card_total_extra = add_totals ec (per_card_total_extra a),
           per_card_total_main_side = add_ms_totals all_ms mc sc (per_card_total_main_side a),
           per_card_by_cut_main = add_presence_by_cut tiers (keys mc) (per_card_by_cut_main a),
           per_card_by_cut_side = add_presence_by_cut tiers (keys sc) (per_card_by_cut_side a),
           per_card_by_cut_extra = add_presence_by_cut tiers (keys ec) (per_card_by_cut_extra a),
           per_card_by_cut_main_side =
             add_presence_by_cut tiers all_ms (per_card_by_cut_main_side a),
           per_card_qty_by_cut_main = add_qty_by_cut tiers mc (per_card_qty_by_cut_main a),
           per_card_qty_by_cut_side = add_qty_by_cut tiers sc (per_card_qty_by_cut_side a),
           per_card_qty_by_cut_extra = add_qty_by_cut tiers ec (per_card_qty_by_cut_extra a),
           per_card_qty_by_cut_main_side =
             add_ms_qty_by_cut tiers all_ms mc sc (per_card_qty_by_cut_main_side a),
           per_archetype_total = counter_add arch 1 (per_archetype_total a),
           per_archetype_by_cut =
             fold (\<lambda>tier. nested_add arch tier 1) tiers (per_archetype_by_cut a),
           per_deck_cut_total = fold (\<lambda>tier. counter_add tier 1) tiers (per_deck_cut_total a),
           per_card_by_archetype =
             fold (\<lambda>card. nested_add card arch 1) (keys cnt) (per_card_by_archetype a),
           per_card_qty_by_archetype =
             fold (\<lambda>(card, qty). nested_add card arch qty) cnt (per_card_qty_by_archetype a),
           per_archetype_card_presence =
             fold (\<lambda>card. nested_add arch card 1) (keys cnt) (per_archetype_card_presence a),
           per_archetype_card_qty =
             fold (\<lambda>(card, qty). nested_add arch card qty) cnt (per_archetype_card_qty a) \<rparr>)"

definition empty_accumulator :: accumulator where
  "empty_accumulator =
     \<lparr> per_card_total = Map.empty, per_card_by_cut = Map.empty, per_card_qty_by_cut = Map.empty,
       per_card_total_main = Map.empty, per_card_total_side = Map.empty,
       per_card_total_extra = Map.empty, per_card_total_main_side = Map.empty,
       per_card_by_cut_main = Map.empty, per_card_by_cut_side = Map.empty,
       per_card_by_cut_extra = Map.empty, per_card_by_cut_main_side = Map.empty,
       per_card_qty_by_cut_main = Map.empty, per_card_qty_by_cut_side = Map.empty,
       per_card_qty_by_cut_extra = Map.empty, per_card_qty_by_cut_main_side = Map.empty,
       per_archetype_total = Map.empty, per_archetype_by_cut = Map.empty,
       per_deck_cut_total = Map.empty, per_card_by_archetype = Map.empty,
       per_card_qty_by_archetype = Map.empty, per_archetype_card_presence = Map.empty,
       per_archetype_card_qty = Map.empty \<rparr>"

definition run :: "observation list \<Rightarrow> accumulator" where
  "run obs = fold (\<lambda>ob a. observe a ob) obs empty_accumulator"

section \<open>The exported document\<close>

text \<open>
  The dictionary \<^verbatim>\<open>result\<close> of \<^verbatim>\<open>main\<close>. The time stamp is a parameter.
  \<^verbatim>\<open>dict(counter)\<close> and the comprehensions \<^verbatim>\<open>{k: dict(v) for k, v in t.items()}\<close> keep
  the keys and the values of a table, so a table is exported as the map it is.
  \<^verbatim>\<open>urljoin\<close> is applied to a base without path and an absolute path only, where it
  concatenates.
\<close>

datatype export_value =
    EText string
  | ESource "(string \<times> string) list"
  | ENotes "string list"
  | ECounter counter
  | ENested counter2

definition BASE :: string where
  "BASE = ''https://formatlibrary.com''"

definition GALLERY_ENDPOINT :: string where
  "GALLERY_ENDPOINT = ''/api/events/gallery/goat''"

definition urljoin :: "string \<Rightarrow> string \<Rightarrow> string" where
  "urljoin base path = base @ path"

definition export_notes :: "string list" where
  "export_notes =
     [''per_card_total: total quantity of each card across all parsed decks (summing copies, all sections)'',
      ''per_card_by_cut: number of decks that included the card at each cut tier (presence-based, all sections)'',
      ''per_card_qty_by_cut: total copies of the card at each cut tier (all sections)'',
      ''per_card_total_main/side/extra: totals by section'',
      ''per_card_total_main_side: totals for main+side (excluding extra)'',
      ''per_card_by_cut_* and per_card_qty_by_cut_*: section-specific presence/quantity by cut, including main_side'',
      ''per_archetype_total: number of decks per archetype (each deck counted once)'',
      ''per_archetype_by_cut: number of decks of that archetype that made each cut tier'',
      ''per_deck_cut_total: total decks that reached each cut tier (all archetypes)'',
      ''per_card_by_archetype: for each card, how many decks of each archetype included it (presence).'',
      ''per_card_qty_by_archetype: for each card, total copies across decks of each archetype.'',
      ''per_archetype_card_presence: for each archetype, how many decks used each card (presence).'',
      ''per_archetype_card_qty: for each archetype, total copies of each card.'']"

definition serialize :: "string \<Rightarrow> accumulator \<Rightarrow> (string \<times> export_value) list" where
  "serialize generated_at a =
     [(''generated_at'', EText generated_at),
      (''source'', ESource
         [(''gallery_endpoint'', urljoin BASE GALLERY_ENDPOINT),
          (''event_endpoint_pattern'', urljoin BASE ''/api/events/{slug}''),
          (''deck_download_pattern'', urljoin BASE ''/api/decks/{deck_id}'')]),
      (''notes'', ENotes export_notes),
      (''per_card_total'', ECounter (per_card_total a)),
      (''per_card_by_cut'', ENested (per_card_by_cut a)),
      (''per_card_qty_by_cut'', ENested (per_card_qty_by_cut a)),
      (''per_card_total_main'', ECounter (per_card_total_main a)),
      (''per_card_total_side'', ECounter (per_card_total_side a)),
      (''per_card_total_extra'', ECounter (per_card_total_extra a)),
      (''per_card_total_main_side'', ECounter (per_card_total_main_side a)),
      (''per_card_by_cut_main'', ENested (per_card_by_cut_main a)),
      (''per_card_by_cut_side'', ENested (per_card_by_cut_side a)),
      (''per_card_by_cut_extra'', ENested (per_card_by_cut_extra a)),
      (''per_card_by_cut_main_side'', ENested (per_card_by_cut_main_side a)),
      (''per_card_qty_by_cut_main'', ENested (per_card_qty_by_cut_main a)),
      (''per_card_qty_by_cut_side'', ENested (per_card_qty_by_cut_side a)),
      (''per_card_qty_by_cut_extra'', ENested (per_card_qty_by_cut_extra a)),
      (''per_card_qty_by_cut_main_side'', ENested (per_card_qty_by_cut_main_side a)),
      (''per_archetype_total'', ECounter (per_archetype_total a)),
      (''per_archetype_by_cut'', ENested (per_archetype_by_cut a)),
      (''per_deck_cut_total'', ECounter (per_deck_cut_total a)),
      (''per_card_by_archetype'', ENested (per_card_by_archetype a)),
      (''per_card_qty_by_archetype'', ENested (per_card_qty_by_archetype a)),
      (''per_archetype_card_presence'', ENested (per_archetype_card_presence a)),
      (''per_archetype_card_qty'', ENested (per_archetype_card_qty a))]"

section \<open>Definitions for stating the properties\<close>

text \<open>
  A dictionary is well formed when its keys are distinct; an observation is well formed when
  its main and side counts are.
\<close>

definition wf_dict :: "counts \<Rightarrow> bool" where
  "wf_dict d = distinct (map fst d)"

definition wf_observation :: "observation \<Rightarrow> bool" where
  "wf_observation ob = (wf_dict (main_counts ob) \<and> wf_dict (side_counts ob))"

definition main_side_consistent :: "accumulator \<Rightarrow> string \<Rightarrow> bool" where
  "main_side_consistent a c =
     (cget (per_card_total_main_side a) c
        = cget (per_card_total_main a) c + cget (per_card_total_side a) c)"

text \<open>
  Functions on tables that are compositions of additions.
\<close>

inductive_set adders :: "(counter \<Rightarrow> counter) set" where
  adders_id: "id \<in> adders"
| adders_add: "counter_add k q \<in> adders"
| adders_comp: "f \<in> adders \<Longrightarrow> g \<in> adders \<Longrightarrow> f \<circ> g \<in> adders"

inductive_set nested_adders :: "(counter2 \<Rightarrow> counter2) set" where
  nested_id: "id \<in> nested_adders"
| nested_add: "nested_add k1 k2 q \<in> nested_adders"
| nested_comp: "f \<in> nested_adders \<Longrightarrow> g \<in> nested_adders \<Longrightarrow> f \<circ> g \<in> nested_adders"


text \<open>
  The lines that the deck-list text loop skips.
\<close>

definition ydk_skipped :: "string \<Rightarrow> bool" where
  "ydk_skipped line = (line = [] \<or> startswith line ''#'' \<or> startswith line ''!'')"

text \<open>
  What one input line of a deck-list text adds to the counts, in the words of the
  specification, where the tests are made on the line as it stands: a blank line or a
  line whose first character is \<^verbatim>\<open>#\<close> or \<^verbatim>\<open>!\<close> adds nothing, a purely numeric line adds 1
  under \<^verbatim>\<open>CARD_ID:\<close> and the line, every other line adds 1 under the trimmed line.
\<close>

definition claimed_line_effect :: "string \<Rightarrow> counts \<Rightarrow> counts" where
  "claimed_line_effect raw cnt =
     (if strip raw = [] \<or> startswith raw ''#'' \<or> startswith raw ''!'' then cnt
      else if isdigit raw then inc (''CARD_ID:'' @ raw) cnt
      else inc (strip raw) cnt)"

text \<open>
  The same with every test made on the trimmed line, to be compared with the parser.
\<close>

definition trimmed_line_effect :: "string \<Rightarrow> counts \<Rightarrow> counts" where
  "trimmed_line_effect raw cnt =
     (if ydk_skipped (strip raw) then cnt
      else if isdigit (strip raw) then inc (''CARD_ID:'' @ strip raw) cnt
      else inc (strip raw) cnt)"

text \<open>
Example inputs.
\<close>

definition all_tiers_once :: counter where
  "all_tiers_once =
     [''Winner'' \<mapsto> 1, ''Finalist'' \<mapsto> 1, ''Top 4'' \<mapsto> 1, ''Top 8'' \<mapsto> 1, ''Top 16'' \<mapsto> 1,
      ''Top 24'' \<mapsto> 1, ''Top 32'' \<mapsto> 1, ''Top 48'' \<mapsto> 1, ''Top 64'' \<mapsto> 1]"

definition burn_deck :: "counts \<Rightarrow> counts \<Rightarrow> counts \<Rightarrow> counts \<Rightarrow> observation" where
  "burn_deck c m s e =
     \<lparr> counts = c, main_counts = m, side_counts = s, extra_counts = e,
       placing = 1, cut_size = 64, archetype = ''Burn'' \<rparr>"

definition control_deck :: "counts \<Rightarrow> counts \<Rightarrow> counts \<Rightarrow> counts \<Rightarrow> observation" where
  "control_deck c m s e =
     \<lparr> counts = c, main_counts = m, side_counts = s, extra_counts = e,
       placing = 50, cut_size = 64, archetype = ''Control'' \<rparr>"

definition goat_deck :: observation where
  "goat_deck =
     \<lparr> counts = [(''Pot of Greed'', 1), (''Dark Hole'', 2)],
       main_counts = [(''Pot of Greed'', 1), (''Dark Hole'', 1)],
       side_counts = [(''Dark Hole'', 1)], extra_counts = [],
       placing = 1, cut_size = 2, archetype = ''Goat Control'' \<rparr>"

definition burn_list :: observation where
  "burn_list =
     \<lparr> counts = [(''Dark Hole'', 1)], main_counts = [(''Dark Hole'', 1)],
       side_counts = [], extra_counts = [],
       placing = 2, cut_size = 2, archetype = ''Burn'' \<rparr>"

definition two_section_deck :: "(string \<times> json) list" where
  "two_section_deck =
     [(''main'', JList [JDict [(''name'', JStr ''Pot of Greed'')],
                        JDict [(''name'', JStr ''Dark Hole'')]]),
      (''side'', JList [JDict [(''cleanName'', JStr ''Dark Hole '')]])]"

definition example_ydk :: string where
  "example_ydk = ''4001\<newline>#comment\<newline>Dark Hole''"

definition padded_ydk :: string where
  "padded_ydk = ''  #extra\<newline> 4001 \<newline>Dark Hole ''"

definition encoded_deck :: string where
  "encoded_deck = ''{\"main\": [{\"name\": \"Pot of Greed\"}]}''"

definition decoded_deck :: json where
  "decoded_deck = JDict [(''main'', JList [JDict [(''name'', JStr ''Pot of Greed'')]])]"
section \<open>Properties of the cut-tier classifier\<close>

lemma tiers_loop_filter:
  "tiers_loop ts p b acc = acc @ map fst (filter (\<lambda>(l, t). t \<le> b \<and> p \<le> t) ts)"
  by (induction ts p b acc rule: tiers_loop.induct) simp_all

lemma tiers_applicable_filter:
  "tiers_applicable p b = map fst (filter (\<lambda>(l, t). t \<le> b \<and> p \<le> t) CUT_TIERS)"
  by (simp add: tiers_applicable_def tiers_loop_filter)

text \<open>
  C2. For all integers \<open>p\<close> and \<open>b\<close>, \<open>tiers_applicable p b\<close> is the list of the labels
  whose threshold \<open>t\<close> satisfies \<open>t \<le> b\<close> and \<open>p \<le> t\<close>, in the order of the tier table
  (Winner first, Top 64 last). It is empty for the sentinel placement 9999 and for
  every bracket size \<open>b \<le> 0\<close>, and it is the list of all nine labels for \<open>p = 1\<close>,
  \<open>b = 64\<close>.
\<close>

theorem tiers_applicable_spec:
  "tiers_applicable p b = map fst (filter (\<lambda>(l, t). t \<le> b \<and> p \<le> t) CUT_TIERS)
   \<and> tiers_applicable 9999 b = []
   \<and> (b \<le> 0 \<longrightarrow> tiers_applicable p b = [])
   \<and> tiers_applicable 1 64 =
        [''Winner'', ''Finalist'', ''Top 4'', ''Top 8'', ''Top 16'', ''Top 24'', ''Top 32'',
         ''Top 48'', ''Top 64'']"
  by (simp add: tiers_applicable_filter) (simp add: CUT_TIERS_def)

theorem tiers_applicable_spec_witness:
  "tiers_applicable 3 16 = [''Top 4'', ''Top 8'', ''Top 16'']
   \<and> tiers_applicable 9999 64 = []
   \<and> (0::int) \<le> 0 \<and> tiers_applicable 1 0 = []
   \<and> length (tiers_applicable 1 64) = 9"
  using tiers_applicable_spec [of 3 16] tiers_applicable_spec [of 9999 64]
    tiers_applicable_spec [of 1 0]
  by (simp add: CUT_TIERS_def)

lemma infer_cut_size_cases:
  "infer_cut_size_from_top n =
     (if n \<le> 1 then 1 else if n \<le> 2 then 2 else if n \<le> 4 then 4 else if n \<le> 8 then 8
      else if n \<le> 16 then 16 else if n \<le> 24 then 24 else if n \<le> 32 then 32
      else if n \<le> 48 then 48 else if n \<le> 64 then 64 else n)"
  by (simp add: infer_cut_size_from_top_def CUT_TIERS_def)

text \<open>
  C5. For every non-negative integer \<open>n\<close>: when \<open>n \<le> 64\<close>, \<open>infer_cut_size_from_top n\<close>
  is a threshold of the tier table, is at least \<open>n\<close>, and is at most every threshold that
  is at least \<open>n\<close> (it is the smallest such threshold); when \<open>n > 64\<close> it is \<open>n\<close> itself.
  In particular the result is 8 for 5 and 100 for 100.
\<close>

theorem infer_cut_size_smallest_threshold:
  assumes "0 \<le> n"
  shows "(n \<le> 64 \<longrightarrow>
            infer_cut_size_from_top n \<in> set tier_thresholds
          \<and> n \<le> infer_cut_size_from_top n
          \<and> (\<forall>t \<in> set tier_thresholds. n \<le> t \<longrightarrow> infer_cut_size_from_top n \<le> t))
       \<and> (64 < n \<longrightarrow> infer_cut_size_from_top n = n)
       \<and> set tier_thresholds = {1, 2, 4, 8, 16, 24, 32, 48, 64}
       \<and> infer_cut_size_from_top 5 = 8
       \<and> infer_cut_size_from_top 100 = 100"
proof -
  have thr: "set tier_thresholds = {1, 2, 4, 8, 16, 24, 32, 48, 64}"
    by (simp add: tier_thresholds_def CUT_TIERS_def)
  show ?thesis
    unfolding thr infer_cut_size_cases by simp
qed

theorem infer_cut_size_smallest_threshold_witness:
  "(0::int) \<le> 20 \<and> (20::int) \<le> 64
   \<and> infer_cut_size_from_top 20 = 24
   \<and> infer_cut_size_from_top 20 \<in> set tier_thresholds
   \<and> (0::int) \<le> 65 \<and> (64::int) < 65 \<and> infer_cut_size_from_top 65 = 65"
  using infer_cut_size_smallest_threshold [of 20] infer_cut_size_smallest_threshold [of 65]
  by (simp add: infer_cut_size_cases)

lemma t1: "tiers_applicable 1 64 = map fst CUT_TIERS"
  by (simp add: tiers_applicable_def CUT_TIERS_def)

lemma t50: "tiers_applicable 50 64 = [''Top 64'']"
  by (simp add: tiers_applicable_def CUT_TIERS_def)

section \<open>Tallies per archetype\<close>

lemmas tally_simps =
  run_def burn_deck_def control_deck_def observe_def Let_def empty_accumulator_def t1 t50
  CUT_TIERS_def nested_add_def counter_add_def cget_def dd_get_def all_tiers_once_def

lemma burn_control_by_cut:
  "per_archetype_by_cut (run [burn_deck c1 m1 s1 e1, control_deck c2 m2 s2 e2]) ''Burn''
     = Some all_tiers_once"
  "per_archetype_by_cut (run [burn_deck c1 m1 s1 e1, control_deck c2 m2 s2 e2]) ''Control''
     = Some [''Top 64'' \<mapsto> 1]"
  "per_deck_cut_total (run [burn_deck c1 m1 s1 e1, control_deck c2 m2 s2 e2])
     = all_tiers_once(''Top 64'' \<mapsto> 2)"
  by (simp_all add: tally_simps)

lemma control_burn_by_cut:
  "per_archetype_by_cut (run [control_deck c2 m2 s2 e2, burn_deck c1 m1 s1 e1]) ''Burn''
     = Some all_tiers_once"
  "per_archetype_by_cut (run [control_deck c2 m2 s2 e2, burn_deck c1 m1 s1 e1]) ''Control''
     = Some [''Top 64'' \<mapsto> 1]"
  "per_deck_cut_total (run [control_deck c2 m2 s2 e2, burn_deck c1 m1 s1 e1])
     = all_tiers_once(''Top 64'' \<mapsto> 2)"
  by (simp_all add: tally_simps)

text \<open>
  C1, as stated: after a Burn deck placed 1st and a Control deck placed 50th, both in a
  bracket of 64, the table \<open>per_archetype_by_cut\<close> would be empty for Control and
  \<open>per_deck_cut_total\<close> would count Burn only. It is not so on the decks without cards:
  placement 50 is within the threshold 64, so Control is counted once for Top 64 and the
  total for Top 64 is 2.
\<close>

theorem burn_control_counterexample:
  "dd_get (per_archetype_by_cut (run [burn_deck [] [] [] [], control_deck [] [] [] []])) ''Control''
     \<noteq> Map.empty
   \<and> tiers_applicable 50 64 = [''Top 64'']
   \<and> per_deck_cut_total (run [burn_deck [] [] [] [], control_deck [] [] [] []]) ''Top 64''
       = Some 2
   \<and> dd_get (per_archetype_by_cut (run [burn_deck [] [] [] [], control_deck [] [] [] []]))
         ''Burn'' ''Top 64''
       = Some 1"
proof -
  have "dd_get (per_archetype_by_cut (run [burn_deck [] [] [] [], control_deck [] [] [] []]))
          ''Control'' ''Top 64'' = Some 1"
    by (simp add: burn_control_by_cut dd_get_def)
  then have "dd_get (per_archetype_by_cut (run [burn_deck [] [] [] [], control_deck [] [] [] []]))
          ''Control'' \<noteq> Map.empty"
    by (metis option.distinct(1))
  then show ?thesis
    by (simp add: burn_control_by_cut dd_get_def all_tiers_once_def t50)
qed

text \<open>
  C1, amended. For a Burn deck placed 1st and a Control deck placed 50th in a bracket of 64,
  observed in either order from the empty accumulator and whatever their cards are:
  \<open>per_archetype_by_cut\<close> has for Burn all nine tiers with count 1 and for Control the
  single entry Top 64 with count 1, and \<open>per_deck_cut_total\<close> has count 1 for the eight
  tiers from Winner to Top 48 and count 2 for Top 64.
\<close>

theorem burn_control_tallies:
  "per_archetype_by_cut (run [burn_deck c1 m1 s1 e1, control_deck c2 m2 s2 e2]) ''Burn''
     = Some all_tiers_once
   \<and> per_archetype_by_cut (run [burn_deck c1 m1 s1 e1, control_deck c2 m2 s2 e2]) ''Control''
     = Some [''Top 64'' \<mapsto> 1]
   \<and> per_deck_cut_total (run [burn_deck c1 m1 s1 e1, control_deck c2 m2 s2 e2])
     = all_tiers_once(''Top 64'' \<mapsto> 2)
   \<and> per_archetype_by_cut (run [control_deck c2 m2 s2 e2, burn_deck c1 m1 s1 e1]) ''Burn''
     = Some all_tiers_once
   \<and> per_archetype_by_cut (run [control_deck c2 m2 s2 e2, burn_deck c1 m1 s1 e1]) ''Control''
     = Some [''Top 64'' \<mapsto> 1]
   \<and> per_deck_cut_total (run [control_deck c2 m2 s2 e2, burn_deck c1 m1 s1 e1])
     = all_tiers_once(''Top 64'' \<mapsto> 2)"
  by (simp only: burn_control_by_cut control_burn_by_cut simp_thms)

section \<open>The main+side totals\<close>

lemma cget_counter_add:
  "cget (counter_add k q c) k' = cget c k' + (if k' = k then q else 0)"
  by (simp add: counter_add_def cget_def)

lemma cget_add_totals:
  "cget (add_totals items t) c = cget t c + sum_list (map snd (filter (\<lambda>p. fst p = c) items))"
  unfolding add_totals_def
  by (induction items arbitrary: t) (auto simp: cget_counter_add)

lemma get0_not_key: "c \<notin> fst ` set d \<Longrightarrow> get0 d c = 0"
  by (simp add: get0_def map_of_eq_None_iff [THEN iffD2])

lemma sum_filter_not_key:
  "c \<notin> fst ` set d \<Longrightarrow> sum_list (map snd (filter (\<lambda>p. fst p = c) d)) = (0::int)"
  by (induction d) auto

lemma sum_filter_distinct:
  "distinct (map fst d) \<Longrightarrow> sum_list (map snd (filter (\<lambda>p. fst p = c) d)) = get0 d c"
proof (induction d)
  case Nil
  then show ?case by (simp add: get0_def)
next
  case (Cons p d)
  show ?case
  proof (cases "fst p = c")
    case True
    with Cons.prems have "c \<notin> fst ` set d" by auto
    then show ?thesis using True by (simp add: sum_filter_not_key get0_def)
  next
    case False
    with Cons show ?thesis by (simp add: get0_def)
  qed
qed

lemma cget_add_ms_totals:
  "distinct all_ms \<Longrightarrow>
     cget (add_ms_totals all_ms m s t) c =
       cget t c + (if c \<in> set all_ms then get0 m c + get0 s c else 0)"
  unfolding add_ms_totals_def
  by (induction all_ms arbitrary: t) (auto simp: cget_counter_add)

lemma observe_main_side:
  assumes "wf_observation ob" and "main_side_consistent a c"
  shows "main_side_consistent (observe a ob) c"
proof -
  let ?m = "main_counts ob" and ?s = "side_counts ob"
  let ?all = "remdups (keys ?m @ keys ?s)"
  have d: "distinct (map fst ?m)" "distinct (map fst ?s)"
    using assms(1) by (simp_all add: wf_observation_def wf_dict_def)
  have out: "c \<notin> set ?all \<Longrightarrow> get0 ?m c = 0 \<and> get0 ?s c = 0"
    by (simp add: keys_def get0_not_key)
  have "cget (add_ms_totals ?all ?m ?s (per_card_total_main_side a)) c
          = cget (per_card_total_main_side a) c + (get0 ?m c + get0 ?s c)"
    using out by (simp add: cget_add_ms_totals)
  moreover have "cget (add_totals ?m (per_card_total_main a)) c
          = cget (per_card_total_main a) c + get0 ?m c"
    by (simp add: cget_add_totals sum_filter_distinct d)
  moreover have "cget (add_totals ?s (per_card_total_side a)) c
          = cget (per_card_total_side a) c + get0 ?s c"
    by (simp add: cget_add_totals sum_filter_distinct d)
  ultimately show ?thesis
    using assms(2) by (simp add: main_side_consistent_def observe_def Let_def)
qed

lemma fold_observe_main_side:
  assumes "list_all wf_observation obs" and "main_side_consistent a c"
  shows "main_side_consistent (fold (\<lambda>ob a. observe a ob) obs a) c"
  using assms
  by (induction obs arbitrary: a) (simp_all add: observe_main_side)

lemma empty_main_side: "main_side_consistent empty_accumulator c"
  by (simp add: main_side_consistent_def empty_accumulator_def cget_def)

lemmas deck_simps =
  goat_deck_def burn_list_def run_def observe_def Let_def empty_accumulator_def
  tiers_applicable_def CUT_TIERS_def keys_def add_totals_def add_ms_totals_def
  add_presence_by_cut_def add_qty_by_cut_def add_ms_qty_by_cut_def nested_add_def
  counter_add_def cget_def dd_get_def get0_def

text \<open>
  C3. In a run over well-formed observations (dictionaries with distinct keys, as every
  Python dictionary has), after any number \<open>n\<close> of observations and for every card \<open>c\<close>, the
  entry of \<open>per_card_total_main_side\<close> is the sum of the entries of \<open>per_card_total_main\<close>
  and \<open>per_card_total_side\<close>, a missing key counting as 0. The states of a run are taken
  between two observations: \<open>observe\<close> is one step.
\<close>

theorem main_side_total_invariant:
  assumes "list_all wf_observation obs"
  shows "cget (per_card_total_main_side (run (take n obs))) c
           = cget (per_card_total_main (run (take n obs))) c
             + cget (per_card_total_side (run (take n obs))) c"
proof -
  have "list_all wf_observation (take n obs)"
    using assms by (auto simp: list_all_iff dest: in_set_takeD)
  then have "main_side_consistent (run (take n obs)) c"
    unfolding run_def by (rule fold_observe_main_side) (rule empty_main_side)
  then show ?thesis by (simp add: main_side_consistent_def)
qed

theorem main_side_total_invariant_witness:
  "list_all wf_observation [goat_deck, burn_list]
   \<and> cget (per_card_total_main_side (run (take 1 [goat_deck, burn_list]))) ''Dark Hole'' = 2
   \<and> cget (per_card_total_main (run (take 1 [goat_deck, burn_list]))) ''Dark Hole'' = 1
   \<and> cget (per_card_total_side (run (take 1 [goat_deck, burn_list]))) ''Dark Hole'' = 1"
proof -
  have wf: "list_all wf_observation [goat_deck, burn_list]"
    by (simp add: wf_observation_def wf_dict_def goat_deck_def burn_list_def)
  have m: "cget (per_card_total_main (run (take 1 [goat_deck, burn_list]))) ''Dark Hole'' = 1"
    by (simp add: deck_simps)
  have s: "cget (per_card_total_side (run (take 1 [goat_deck, burn_list]))) ''Dark Hole'' = 1"
    by (simp add: deck_simps)
  show ?thesis
    using main_side_total_invariant [OF wf, of 1 "''Dark Hole''"] wf m s by simp
qed

section \<open>Order of the observations\<close>

lemma counter_add_commute:
  "counter_add k q (counter_add k' q' c) = counter_add k' q' (counter_add k q c)"
  by (auto simp: counter_add_def cget_def fun_eq_iff)

lemma nested_add_commute:
  "nested_add k1 k2 q (nested_add k1' k2' q' d) = nested_add k1' k2' q' (nested_add k1 k2 q d)"
  by (auto simp: nested_add_def dd_get_def counter_add_commute fun_eq_iff)

lemma adders_commute_add:
  "f \<in> adders \<Longrightarrow> f (counter_add k q c) = counter_add k q (f c)"
  by (induction arbitrary: c rule: adders.induct) (simp_all add: counter_add_commute)

lemma adders_commute: "g \<in> adders \<Longrightarrow> f \<in> adders \<Longrightarrow> f (g c) = g (f c)"
  by (induction arbitrary: c rule: adders.induct) (simp_all add: adders_commute_add)

lemma nested_adders_commute_add:
  "f \<in> nested_adders \<Longrightarrow> f (nested_add k1 k2 q d) = nested_add k1 k2 q (f d)"
  by (induction arbitrary: d rule: nested_adders.induct) (simp_all add: nested_add_commute)

lemma nested_adders_commute:
  "g \<in> nested_adders \<Longrightarrow> f \<in> nested_adders \<Longrightarrow> f (g d) = g (f d)"
  by (induction arbitrary: d rule: nested_adders.induct)
    (simp_all add: nested_adders_commute_add)

lemma fold_adders: "(\<And>x. h x \<in> adders) \<Longrightarrow> fold h xs \<in> adders"
proof (induction xs)
  case Nil
  show ?case unfolding fold.simps by (rule adders_id)
next
  case (Cons x xs)
  then show ?case unfolding fold.simps by (intro adders_comp) simp_all
qed

lemma fold_nested_adders: "(\<And>x. h x \<in> nested_adders) \<Longrightarrow> fold h xs \<in> nested_adders"
proof (induction xs)
  case Nil
  show ?case unfolding fold.simps by (rule nested_id)
next
  case (Cons x xs)
  then show ?case unfolding fold.simps by (intro nested_comp) simp_all
qed

lemma add_totals_adder: "add_totals items \<in> adders"
  unfolding add_totals_def by (intro fold_adders) (simp add: split_def adders_add)

lemma add_ms_totals_adder: "add_ms_totals all_ms m s \<in> adders"
  unfolding add_ms_totals_def by (intro fold_adders adders_add)

lemma add_presence_by_cut_adder: "add_presence_by_cut tiers cards \<in> nested_adders"
  unfolding add_presence_by_cut_def by (intro fold_nested_adders nested_add)

lemma add_qty_by_cut_adder: "add_qty_by_cut tiers items \<in> nested_adders"
  unfolding add_qty_by_cut_def split_def by (intro fold_nested_adders nested_add)

lemma add_ms_qty_by_cut_adder: "add_ms_qty_by_cut tiers all_ms m s \<in> nested_adders"
  unfolding add_ms_qty_by_cut_def by (intro fold_nested_adders nested_add)

lemma fold_tier_adder: "fold (\<lambda>tier. counter_add tier 1) tiers \<in> adders"
  by (intro fold_adders adders_add)

lemma fold_nested1: "fold (\<lambda>x. nested_add (f x) (g x) (h x)) xs \<in> nested_adders"
  by (intro fold_nested_adders nested_add)

lemma fold_nested2: "fold (\<lambda>(x, y). nested_add (f x y) (g x y) (h x y)) xs \<in> nested_adders"
  unfolding split_def by (intro fold_nested_adders nested_add)

lemmas adder_intros =
  add_totals_adder add_ms_totals_adder add_presence_by_cut_adder add_qty_by_cut_adder
  add_ms_qty_by_cut_adder fold_tier_adder fold_nested1 fold_nested2 adders_add

lemma observe_commute: "observe (observe a x) y = observe (observe a y) x"
  unfolding observe_def Let_def
  apply (simp)
  apply (intro conjI adders_commute nested_adders_commute adder_intros)
  done

lemma run_permutation:
  assumes "mset xs = mset ys"
  shows "run xs = run ys"
proof -
  have "fold (\<lambda>ob a. observe a ob) xs = fold (\<lambda>ob a. observe a ob) ys"
    using assms by (intro fold_multiset_equiv) (simp_all add: fun_eq_iff observe_commute)
  then show ?thesis by (simp add: run_def)
qed

text \<open>
  C7. Two lists of observations with the same elements and multiplicities, in any two
  orders, give the same exported document: the same tables as maps of maps, with the keys
  that the observations created and no others.
\<close>

theorem serialize_order_independent:
  assumes "mset xs = mset ys"
  shows "serialize generated_at (run xs) = serialize generated_at (run ys)"
  using assms by (simp add: run_permutation [of xs ys])

theorem serialize_order_independent_witness:
  "mset [goat_deck, burn_list] = mset [burn_list, goat_deck]
   \<and> serialize ''2024-01-01T00:00:00Z'' (run [goat_deck, burn_list])
       = serialize ''2024-01-01T00:00:00Z'' (run [burn_list, goat_deck])
   \<and> cget (per_card_total (run [burn_list, goat_deck])) ''Dark Hole'' = 3
   \<and> goat_deck \<noteq> burn_list"
proof -
  have p: "mset [goat_deck, burn_list] = mset [burn_list, goat_deck]"
    by (simp add: add.commute)
  have v: "cget (per_card_total (run [burn_list, goat_deck])) ''Dark Hole'' = 3"
    by (simp add: deck_simps)
  have d: "goat_deck \<noteq> burn_list"
    by (simp add: goat_deck_def burn_list_def)
  show ?thesis
    using serialize_order_independent [OF p, of "''2024-01-01T00:00:00Z''"] p v d by simp
qed

section \<open>The section loops\<close>

lemma get0_inc: "get0 (inc k d) c = get0 d c + (if c = k then 1 else 0)"
  by (simp add: inc_def get0_def update_conv')


lemma add_objs_shift:
  assumes "\<And>c. get0 d' c = get0 d c + delta c"
  shows "map_sum id (\<lambda>r. get0 r c) (add_objs xs d')
           = map_sum id (\<lambda>r. get0 r c + delta c) (add_objs xs d)"
  using assms
proof (induction xs d arbitrary: d' rule: add_objs.induct)
  case (1 counts)
  then show ?case by simp
next
  case (2 obj rest counts)
  show ?case
  proof (cases "truthy (card_name_field obj)")
    case False
    then show ?thesis using 2 by simp
  next
    case True
    show ?thesis
    proof (cases "card_name_field obj")
      case (JStr s)
      have "\<And>c. get0 (inc (normalize_card_name s) d') c
                  = get0 (inc (normalize_card_name s) counts) c + delta c"
        using "2.prems" by (simp add: get0_inc)
      then show ?thesis using True JStr "2.IH"(1) by simp
    qed (use True in simp_all)
  qed
qed simp_all



lemma add_from_section_shift:
  "map_sum id (\<lambda>r. get0 r c) (add_from_section items d)
     = map_sum id (\<lambda>r. get0 r c + get0 d c) (add_from_section items [])"
proof (cases "iter_items items")
  case (Inl e)
  then show ?thesis by (simp add: add_from_section_def)
next
  case (Inr objs)
  have "map_sum id (\<lambda>r. get0 r c) (add_objs objs d)
          = map_sum id (\<lambda>r. get0 r c + get0 d c) (add_objs objs [])"
    by (rule add_objs_shift) (simp add: get0_def)
  then show ?thesis using Inr by (simp add: add_from_section_def)
qed

lemma add_from_section_Inl:
  assumes "add_from_section items [] = Inl e"
  shows "add_from_section items d = Inl e"
  using add_from_section_shift [of undefined items d] assms
  by (cases "add_from_section items d") simp_all

lemma add_from_section_Inr:
  assumes "add_from_section items [] = Inr r"
  shows "\<exists>r'. add_from_section items d = Inr r' \<and> (\<forall>c. get0 r' c = get0 r c + get0 d c)"
proof (cases "add_from_section items d")
  case (Inl e)
  then show ?thesis using add_from_section_shift [of undefined items d] assms by simp
next
  case (Inr r')
  have "get0 r' c = get0 r c + get0 d c" for c
    using add_from_section_shift [of c items d] assms Inr by simp
  then show ?thesis using Inr by simp
qed

lemmas parser_simps =
  parse_deck_sections_def parse_dict_payload_def has_key_def dict_get_def add_from_section_def
  iter_items_def card_name_field_def py_or_def then_res_def normalize_card_name_def strip_def
  is_space_def inc_def get0_def

lemmas text_simps =
  parse_ydk_text_def splitlines_def is_linebreak_def strip_def is_space_def startswith_def
  isdigit_def is_digit_def inc_def get0_def normalize_card_name_def

text \<open>
  C9. For an object payload with at least one of the keys main, extra, side, the whole-deck
  parser returns on it, and either both parsers raise, or both return and the combined
  count of every card is the sum of its counts in the main, side and extra mappings of the
  section parser.
\<close>

theorem combined_counts_sum_of_sections:
  assumes "has_key d ''main'' \<or> has_key d ''extra'' \<or> has_key d ''side''"
  shows "parse_deck_payload loads (JDict d) = Some (parse_dict_payload d)
       \<and> (case parse_deck_sections (JDict d) of
            Inr (m, s, e) \<Rightarrow>
              (\<exists>cnt. parse_dict_payload d = Inr cnt
                 \<and> (\<forall>card. get0 cnt card = get0 m card + get0 s card + get0 e card))
          | Inl err \<Rightarrow> (\<exists>err'. parse_dict_payload d = Inl err'))"
proof -
  let ?M = "dict_get d ''main'' (JList [])"
  let ?S = "dict_get d ''side'' (JList [])"
  let ?E = "dict_get d ''extra'' (JList [])"
  have pay: "parse_dict_payload d =
      then_res (add_from_section ?M []) (\<lambda>c1.
      then_res (add_from_section ?E c1) (\<lambda>c2. add_from_section ?S c2))"
    using assms by (simp add: parse_dict_payload_def)
  have first: "parse_deck_payload loads (JDict d) = Some (parse_dict_payload d)"
    by (subst parse_deck_payload.simps) simp
  have second: "(case parse_deck_sections (JDict d) of
            Inr (m, s, e) \<Rightarrow>
              (\<exists>cnt. parse_dict_payload d = Inr cnt
                 \<and> (\<forall>card. get0 cnt card = get0 m card + get0 s card + get0 e card))
          | Inl err \<Rightarrow> (\<exists>err'. parse_dict_payload d = Inl err'))"
  proof (cases "add_from_section ?M []")
    case (Inl e)
    then show ?thesis by (simp add: pay parse_deck_sections_def then_res_def)
  next
    case M: (Inr m)
    show ?thesis
    proof (cases "add_from_section ?S []")
      case S: (Inl e)
      show ?thesis
      proof (cases "add_from_section ?E m")
        case (Inl e')
        then show ?thesis using M S by (simp add: pay parse_deck_sections_def then_res_def)
      next
        case (Inr c2)
        then show ?thesis
          using M S add_from_section_Inl [OF S, of c2]
          by (simp add: pay parse_deck_sections_def then_res_def)
      qed
    next
      case S: (Inr s)
      show ?thesis
      proof (cases "add_from_section ?E []")
        case E: (Inl e)
        then show ?thesis
          using M S add_from_section_Inl [OF E, of m]
          by (simp add: pay parse_deck_sections_def then_res_def)
      next
        case E: (Inr e)
        obtain c2 where c2: "add_from_section ?E m = Inr c2"
            "\<forall>c. get0 c2 c = get0 e c + get0 m c"
          using add_from_section_Inr [OF E, of m] by blast
        obtain c3 where c3: "add_from_section ?S c2 = Inr c3"
            "\<forall>c. get0 c3 c = get0 s c + get0 c2 c"
          using add_from_section_Inr [OF S, of c2] by blast
        show ?thesis
          using M S E c2 c3 by (simp add: pay parse_deck_sections_def then_res_def)
      qed
    qed
  qed
  show ?thesis using first second by (rule conjI)
qed

theorem combined_counts_sum_of_sections_witness:
  "has_key two_section_deck ''main''
   \<and> parse_deck_payload (\<lambda>s. None) (JDict two_section_deck)
       = Some (Inr [(''Pot of Greed'', 1), (''Dark Hole'', 2)])
   \<and> parse_deck_sections (JDict two_section_deck)
       = Inr ([(''Pot of Greed'', 1), (''Dark Hole'', 1)], [(''Dark Hole'', 1)], [])"
  using combined_counts_sum_of_sections [of two_section_deck "\<lambda>s. None"]
  by (simp add: two_section_deck_def parser_simps)




text \<open>
  C4. The claim is that a string payload is first decoded and that the section parser
  returns the section mappings of the decoded record. \<open>parse_deck_sections\<close> returns three
  empty mappings for every string, while \<open>parse_deck_payload\<close> decodes the same string and
  counts its cards: on the encoded deck with one Pot of Greed in main the combined counts
  hold the card and the section counts are empty.
\<close>

theorem parse_deck_sections_ignores_strings:
  "parse_deck_sections (JStr s) = Inr ([], [], [])
   \<and> parse_deck_payload (\<lambda>t. if t = encoded_deck then Some decoded_deck else None)
        (JStr encoded_deck) = Some (Inr [(''Pot of Greed'', 1)])
   \<and> parse_deck_sections decoded_deck = Inr ([(''Pot of Greed'', 1)], [], [])
   \<and> parse_deck_sections (JStr encoded_deck) = Inr ([], [], [])"
  apply (simp add: parse_deck_sections_def)
  apply (subst parse_deck_payload.simps)
  apply (simp add: decoded_deck_def)
  apply (subst parse_deck_payload.simps)
  apply (simp add: parse_dict_payload_def has_key_def dict_get_def add_from_section_def
      iter_items_def card_name_field_def py_or_def then_res_def text_simps)
  done

section \<open>Deck-list text\<close>

lemma dropWhile_id: "xs = [] \<or> \<not> P (hd xs) \<Longrightarrow> dropWhile P xs = xs"
  by (cases xs) auto

lemma strip_ends:
  "strip s = [] \<or> (\<not> is_space (hd (strip s)) \<and> \<not> is_space (last (strip s)))"
proof (cases "strip s = []")
  case True
  then show ?thesis by simp
next
  case False
  let ?u = "dropWhile is_space s"
  let ?w = "dropWhile is_space (rev ?u)"
  have w: "?w \<noteq> []" using False by (simp add: strip_def)
  then have hw: "\<not> is_space (hd ?w)" by (rule hd_dropWhile)
  have l: "last (strip s) = hd ?w" using w by (simp add: strip_def last_rev)
  have "rev ?u = takeWhile is_space (rev ?u) @ ?w" by simp
  then have "?u = rev ?w @ rev (takeWhile is_space (rev ?u))"
    by (metis rev_append rev_rev_ident)
  then have "hd ?u = hd (rev ?w)" using w by (metis hd_append2 rev_is_Nil_conv)
  moreover have "?u \<noteq> []"
  proof
    assume "?u = []"
    then have "?w = []" by (simp only: rev.simps dropWhile.simps)
    with w show False ..
  qed
  then have "\<not> is_space (hd ?u)" by (rule hd_dropWhile)
  ultimately have "\<not> is_space (hd (strip s))" by (simp add: strip_def)
  then show ?thesis using hw l by simp
qed

lemma strip_idem: "strip (strip s) = strip s"
proof (cases "strip s = []")
  case True
  have "strip [] = []" by (simp add: strip_def)
  then show ?thesis by (simp only: True)
next
  case False
  then have e: "\<not> is_space (hd (strip s))" "\<not> is_space (last (strip s))"
    using strip_ends [of s] by auto
  have 1: "dropWhile is_space (strip s) = strip s"
    using e by (intro dropWhile_id) simp
  have "hd (rev (strip s)) = last (strip s)" using False by (simp add: hd_rev)
  then have 2: "dropWhile is_space (rev (strip s)) = rev (strip s)"
    using e by (intro dropWhile_id) simp
  show ?thesis
    by (subst strip_def) (simp add: 1 2)
qed

lemma strip_keeps_head:
  assumes "\<not> is_space c"
  shows "startswith (strip (c # s)) [c]"
proof -
  have "dropWhile is_space (rev s @ [c]) = dropWhile is_space (rev s) @ [c]"
    using assms by (simp add: dropWhile_append3)
  then show ?thesis using assms by (simp add: strip_def startswith_def)
qed

lemma example_ydk_counts:
  "parse_ydk_text example_ydk = [(''CARD_ID:4001'', 1), (''Dark Hole'', 1)]"
  by (simp add: example_ydk_def text_simps)

lemma ydk_lines_fold:
  "ydk_lines (map strip raws) cnt = fold trimmed_line_effect raws cnt"
proof (induction raws arbitrary: cnt)
  case Nil
  show ?case by simp
next
  case (Cons raw raws)
  have "ydk_lines (strip raw # map strip raws) cnt
          = ydk_lines (map strip raws) (trimmed_line_effect raw cnt)"
    by (simp add: trimmed_line_effect_def ydk_skipped_def normalize_card_name_def strip_idem)
  then show ?case by (simp add: Cons.IH)
qed

lemma parse_ydk_text_fold:
  "parse_ydk_text text = fold trimmed_line_effect (splitlines text) []"
  by (simp add: parse_ydk_text_def ydk_lines_fold)

lemma comment_line_skipped:
  assumes "startswith raw ''#'' \<or> startswith raw ''!''"
  shows "ydk_skipped (strip raw)"
proof -
  from assms obtain c s where raw: "raw = c # s"
    by (cases raw) (auto simp: startswith_def)
  with assms have c: "c = CHR ''#'' \<or> c = CHR ''!''"
    by (auto simp: startswith_def)
  then have "\<not> is_space c"
    by (auto simp: is_space_def)
  then have "startswith (strip (c # s)) [c]"
    by (rule strip_keeps_head)
  with c raw show ?thesis
    by (auto simp: ydk_skipped_def)
qed

text \<open>
  C6, as stated: the tests would be made on the input line as it stands. A line with
  spaces before \<^verbatim>\<open>#\<close> does not begin with \<^verbatim>\<open>#\<close>, is not blank and not numeric, so it
  would be recorded as the card \<^verbatim>\<open>#extra\<close>; the parser records nothing. A number between
  spaces is not purely numeric, so it would be recorded as the card \<^verbatim>\<open>4001\<close>; the parser
  records it under \<^verbatim>\<open>CARD_ID:4001\<close>.
\<close>

theorem ydk_untrimmed_line_counterexample:
  "fold claimed_line_effect (splitlines ''  #extra'') [] = [(''#extra'', 1)]
   \<and> parse_ydk_text ''  #extra'' = []
   \<and> parse_dict_payload [(''ydk'', JStr ''  #extra'')] = Inr []
   \<and> fold claimed_line_effect (splitlines '' 4001 '') [] = [(''4001'', 1)]
   \<and> parse_ydk_text '' 4001 '' = [(''CARD_ID:4001'', 1)]
   \<and> parse_dict_payload [(''ydk'', JStr '' 4001 '')] = Inr [(''CARD_ID:4001'', 1)]"
  by (simp add: claimed_line_effect_def parse_dict_payload_def has_key_def dict_get_def
      text_simps)

text \<open>
  C6, amended. A deck-list text is parsed line by line, every line being trimmed first and
  every test made on the trimmed line: the counts are those obtained by applying
  \<open>trimmed_line_effect\<close> to the lines of the text in order, for the text itself, for the
  \<^verbatim>\<open>ydk\<close> field of an object without section keys, and for a string payload that does not
  decode. A line that is empty once trimmed or then begins with \<^verbatim>\<open>#\<close> or \<^verbatim>\<open>!\<close> (as every
  line does whose first character is one of them) adds nothing; a trimmed line of digits
  adds 1 under \<^verbatim>\<open>CARD_ID:\<close> followed by the digits and changes no other count; every other
  line adds 1 under the trimmed line and changes no other count. The example text gives
  exactly the counts CARD_ID:4001 = 1 and Dark Hole = 1.
\<close>

theorem ydk_trimmed_line_rules:
  "parse_ydk_text ydk = fold trimmed_line_effect (splitlines ydk) []
   \<and> (\<not> has_key p ''main'' \<and> \<not> has_key p ''extra'' \<and> \<not> has_key p ''side''
        \<and> dict_get p ''ydk'' JNull = JStr ydk \<longrightarrow>
        parse_deck_payload loads (JDict p)
          = Some (Inr (fold trimmed_line_effect (splitlines ydk) [])))
   \<and> (loads ydk = None \<longrightarrow>
        parse_deck_payload loads (JStr ydk)
          = Some (Inr (fold trimmed_line_effect (splitlines ydk) [])))
   \<and> (ydk_skipped (strip raw) \<longrightarrow> trimmed_line_effect raw d = d)
   \<and> (startswith raw ''#'' \<or> startswith raw ''!'' \<longrightarrow> trimmed_line_effect raw d = d)
   \<and> (\<not> ydk_skipped (strip raw) \<and> isdigit (strip raw) \<longrightarrow>
        get0 (trimmed_line_effect raw d) c
          = get0 d c + (if c = ''CARD_ID:'' @ strip raw then 1 else 0))
   \<and> (\<not> ydk_skipped (strip raw) \<and> \<not> isdigit (strip raw) \<longrightarrow>
        get0 (trimmed_line_effect raw d) c = get0 d c + (if c = strip raw then 1 else 0))
   \<and> parse_ydk_text example_ydk = [(''CARD_ID:4001'', 1), (''Dark Hole'', 1)]"
proof -
  have field: "parse_deck_payload loads (JDict p)
          = Some (Inr (fold trimmed_line_effect (splitlines ydk) []))"
    if "\<not> has_key p ''main'' \<and> \<not> has_key p ''extra'' \<and> \<not> has_key p ''side''
        \<and> dict_get p ''ydk'' JNull = JStr ydk"
    using that
    by (subst parse_deck_payload.simps) (simp add: parse_dict_payload_def parse_ydk_text_fold)
  have raw_text: "parse_deck_payload loads (JStr ydk)
          = Some (Inr (fold trimmed_line_effect (splitlines ydk) []))"
    if "loads ydk = None"
    using that by (subst parse_deck_payload.simps) (simp add: parse_ydk_text_fold)
  have skip: "trimmed_line_effect raw d = d" if "ydk_skipped (strip raw)"
    using that by (simp add: trimmed_line_effect_def)
  have comment: "trimmed_line_effect raw d = d"
    if "startswith raw ''#'' \<or> startswith raw ''!''"
    using comment_line_skipped [OF that] by (rule skip)
  have ident: "get0 (trimmed_line_effect raw d) c
          = get0 d c + (if c = ''CARD_ID:'' @ strip raw then 1 else 0)"
    if "\<not> ydk_skipped (strip raw) \<and> isdigit (strip raw)"
    using that by (simp add: trimmed_line_effect_def get0_inc)
  have name: "get0 (trimmed_line_effect raw d) c = get0 d c + (if c = strip raw then 1 else 0)"
    if "\<not> ydk_skipped (strip raw) \<and> \<not> isdigit (strip raw)"
    using that by (simp add: trimmed_line_effect_def get0_inc)
  show ?thesis
    using parse_ydk_text_fold [of ydk] field raw_text skip comment ident name
      example_ydk_counts
    by blast
qed

theorem ydk_trimmed_line_rules_witness:
  "\<not> has_key [(''ydk'', JStr padded_ydk)] ''main''
   \<and> \<not> has_key [(''ydk'', JStr padded_ydk)] ''extra''
   \<and> \<not> has_key [(''ydk'', JStr padded_ydk)] ''side''
   \<and> dict_get [(''ydk'', JStr padded_ydk)] ''ydk'' JNull = JStr padded_ydk
   \<and> parse_deck_payload (\<lambda>s. None) (JDict [(''ydk'', JStr padded_ydk)])
        = Some (Inr [(''CARD_ID:4001'', 1), (''Dark Hole'', 1)])
   \<and> parse_deck_payload (\<lambda>s. None) (JStr padded_ydk)
        = Some (Inr [(''CARD_ID:4001'', 1), (''Dark Hole'', 1)])
   \<and> ydk_skipped (strip ''  #extra'')
   \<and> trimmed_line_effect ''  #extra'' [(''Dark Hole'', 1)] = [(''Dark Hole'', 1)]
   \<and> startswith ''!side'' ''!''
   \<and> trimmed_line_effect ''!side'' [] = []
   \<and> \<not> ydk_skipped (strip '' 4001 '') \<and> isdigit (strip '' 4001 '')
   \<and> get0 (trimmed_line_effect '' 4001 '' [(''CARD_ID:4001'', 1)]) ''CARD_ID:4001'' = 2
   \<and> \<not> ydk_skipped (strip ''Dark Hole '') \<and> \<not> isdigit (strip ''Dark Hole '')
   \<and> get0 (trimmed_line_effect ''Dark Hole '' [(''Dark Hole'', 1)]) ''Dark Hole'' = 2"
proof -
  have lines: "fold trimmed_line_effect (splitlines padded_ydk) []
      = [(''CARD_ID:4001'', 1), (''Dark Hole'', 1)]"
    by (simp add: padded_ydk_def trimmed_line_effect_def ydk_skipped_def text_simps)
  have keys: "\<not> has_key [(''ydk'', JStr padded_ydk)] ''main''
      \<and> \<not> has_key [(''ydk'', JStr padded_ydk)] ''extra''
      \<and> \<not> has_key [(''ydk'', JStr padded_ydk)] ''side''
      \<and> dict_get [(''ydk'', JStr padded_ydk)] ''ydk'' JNull = JStr padded_ydk"
    by (simp add: has_key_def dict_get_def)
  have tests: "ydk_skipped (strip ''  #extra'') \<and> startswith ''!side'' ''!''
      \<and> \<not> ydk_skipped (strip '' 4001 '') \<and> isdigit (strip '' 4001 '')
      \<and> \<not> ydk_skipped (strip ''Dark Hole '') \<and> \<not> isdigit (strip ''Dark Hole '')"
    by (simp add: ydk_skipped_def text_simps)
  show ?thesis
    using
      ydk_trimmed_line_rules [of padded_ydk "[(''ydk'', JStr padded_ydk)]" "\<lambda>s. None"
        "''  #extra''" "[(''Dark Hole'', 1)]" "''Dark Hole''"]
      ydk_trimmed_line_rules [of padded_ydk "[(''ydk'', JStr padded_ydk)]" "\<lambda>s. None"
        "''!side''" "[]" "''Dark Hole''"]
      ydk_trimmed_line_rules [of padded_ydk "[(''ydk'', JStr padded_ydk)]" "\<lambda>s. None"
        "'' 4001 ''" "[(''CARD_ID:4001'', 1)]" "''CARD_ID:4001''"]
      ydk_trimmed_line_rules [of padded_ydk "[(''ydk'', JStr padded_ydk)]" "\<lambda>s. None"
        "''Dark Hole ''" "[(''Dark Hole'', 1)]" "''Dark Hole''"]
      lines keys tests
    by (simp add: text_simps)
qed

section \<open>Placement overrides\<close>

lemma dict_get_delete:
  "k' \<noteq> k \<Longrightarrow> dict_get (AList.delete k p) k' dflt = dict_get p k' dflt"
  by (simp add: dict_get_def delete_conv')

text \<open>
  C10. When the deck payload is an object with a \<^verbatim>\<open>placement\<close> field whose conversion to
  an integer fails, the placement is the one derived from the event entry (9999 when that
  conversion failed too), the deck reference is the entry's, the archetype is the
  payload's \<^verbatim>\<open>deckTypeName\<close> when truthy and the entry's otherwise, and the whole result
  is the one obtained from the payload without the \<^verbatim>\<open>placement\<close> field.
\<close>

theorem failed_placement_override:
  assumes "has_key p ''placement''" and "to_int (dict_get p ''placement'' JNull) = None"
  shows "r_placing (resolve_entry to_int entry (JDict p)) = entry_placing to_int entry
       \<and> (to_int (py_or (dict_get entry ''placing'' JNull)
                     (py_or (dict_get entry ''place'' JNull) (dict_get entry ''rank'' JNull))) = None
            \<longrightarrow> r_placing (resolve_entry to_int entry (JDict p)) = 9999)
       \<and> r_deck_id (resolve_entry to_int entry (JDict p)) = entry_deck_id entry
       \<and> r_archetype (resolve_entry to_int entry (JDict p))
           = (if truthy (dict_get p ''deckTypeName'' JNull)
              then dict_get p ''deckTypeName'' JNull else entry_archetype entry)
       \<and> resolve_entry to_int entry (JDict p)
           = resolve_entry to_int entry (JDict (AList.delete ''placement'' p))"
  using assms
  by (simp add: resolve_entry_def Let_def entry_placing_def dict_get_delete has_key_def
      delete_keys)

lemma py_int_examples:
  "py_int (JStr '' -1_0 '') = Some (- 10)"
  "py_int (JStr ''007'') = Some 7"
  "py_int (JStr ''1__0'') = None"
  "py_int (JStr ''3rd'') = None"
  "py_int (JStr [CHR 0x1C, CHR ''7'']) = None"
  "py_int (JStr [CHR 0xA0, CHR ''7'']) = Some 7"
  "py_int (JBool True) = Some 1"
  "py_int JNull = None"
  by (simp_all add: int_of_str_def int_strip_def is_int_space_def startswith_def
      is_ascii_digit_def digits_value_def int_max_str_digits_def)

theorem failed_placement_override_witness:
  "has_key [(''placement'', JStr ''3rd''), (''deckTypeName'', JStr ''Chaos Turbo'')] ''placement''
   \<and> py_int (JStr ''3rd'') = None
   \<and> resolve_entry py_int [(''placing'', JInt 3), (''deckType'', JStr ''Chaos''), (''deckId'', JInt 77)]
        (JDict [(''placement'', JStr ''3rd''), (''deckTypeName'', JStr ''Chaos Turbo'')])
      = \<lparr> r_placing = 3, r_deck_id = JInt 77, r_archetype = JStr ''Chaos Turbo'' \<rparr>
   \<and> py_int (py_or (dict_get [(''placing'', JStr ''first''), (''deckId'', JInt 78)] ''placing'' JNull)
               (py_or (dict_get [(''placing'', JStr ''first''), (''deckId'', JInt 78)] ''place'' JNull)
                  (dict_get [(''placing'', JStr ''first''), (''deckId'', JInt 78)] ''rank'' JNull))) = None
   \<and> truthy (entry_deck_id [(''placing'', JStr ''first''), (''deckId'', JInt 78)])
   \<and> r_placing (resolve_entry py_int [(''placing'', JStr ''first''), (''deckId'', JInt 78)]
        (JDict [(''placement'', JStr ''3rd''), (''deckTypeName'', JStr ''Chaos Turbo'')])) = 9999"
  using failed_placement_override [of "[(''placement'', JStr ''3rd''), (''deckTypeName'', JStr ''Chaos Turbo'')]" py_int
      "[(''placing'', JInt 3), (''deckType'', JStr ''Chaos''), (''deckId'', JInt 77)]"]
    failed_placement_override [of "[(''placement'', JStr ''3rd''), (''deckTypeName'', JStr ''Chaos Turbo'')]" py_int
      "[(''placing'', JStr ''first''), (''deckId'', JInt 78)]"]
  by (simp add: has_key_def dict_get_def py_or_def int_of_str_def int_strip_def is_int_space_def
      startswith_def is_ascii_digit_def resolve_entry_def entry_placing_def entry_deck_id_def
      entry_archetype_def)

end
